theory Spec2Isabelle
  imports Main
begin

section \<open>The instance image build script\<close>

text \<open>
  This theory embeds \<^verbatim>\<open>scripts/build_instance_image.py\<close>: the function \<^verbatim>\<open>main\<close>
  and the \<^verbatim>\<open>__main__\<close> guard. The classes \<^verbatim>\<open>DockerManager\<close> and \<^verbatim>\<open>RepoManager\<close>
  and the Docker client live in other packages; what each of their methods does on one
  call (return a value or raise) is a parameter of the run.
\<close>

subsection \<open>Strings\<close>

text \<open>
  A string is a list of code points below 256, a \<open>char\<close> each. On such a string
  \<^verbatim>\<open>str.lower()\<close> works code point by code point: the upper-case letters are A to Z and
  U+00C0 to U+00DE without the sign U+00D7, the lower-case form of each lies 32 above
  it, and every other code point stays as it is.
\<close>

definition ascii_uppercase :: string where
  "ascii_uppercase = ''ABCDEFGHIJKLMNOPQRSTUVWXYZ''"

definition ascii_lowercase :: string where
  "ascii_lowercase = ''abcdefghijklmnopqrstuvwxyz''"

definition latin1_uppercase :: string where
  "latin1_uppercase =
     [CHR 0xC0, CHR 0xC1, CHR 0xC2, CHR 0xC3, CHR 0xC4, CHR 0xC5, CHR 0xC6, CHR 0xC7,
      CHR 0xC8, CHR 0xC9, CHR 0xCA, CHR 0xCB, CHR 0xCC, CHR 0xCD, CHR 0xCE, CHR 0xCF,
      CHR 0xD0, CHR 0xD1, CHR 0xD2, CHR 0xD3, CHR 0xD4, CHR 0xD5, CHR 0xD6, CHR 0xD8,
      CHR 0xD9, CHR 0xDA, CHR 0xDB, CHR 0xDC, CHR 0xDD, CHR 0xDE]"

definition latin1_lowercase :: string where
  "latin1_lowercase =
     [CHR 0xE0, CHR 0xE1, CHR 0xE2, CHR 0xE3, CHR 0xE4, CHR 0xE5, CHR 0xE6, CHR 0xE7,
      CHR 0xE8, CHR 0xE9, CHR 0xEA, CHR 0xEB, CHR 0xEC, CHR 0xED, CHR 0xEE, CHR 0xEF,
      CHR 0xF0, CHR 0xF1, CHR 0xF2, CHR 0xF3, CHR 0xF4, CHR 0xF5, CHR 0xF6, CHR 0xF8,
      CHR 0xF9, CHR 0xFA, CHR 0xFB, CHR 0xFC, CHR 0xFD, CHR 0xFE]"

definition uppercase :: string where
  "uppercase = ascii_uppercase @ latin1_uppercase"

definition lowercase :: string where
  "lowercase = ascii_lowercase @ latin1_lowercase"

definition is_upper :: "char \<Rightarrow> bool" where
  "is_upper c = (c \<in> set uppercase)"

definition lower_char :: "char \<Rightarrow> char" where
  "lower_char c =
     (case map_of (zip uppercase lowercase) c of None \<Rightarrow> c | Some d \<Rightarrow> d)"

definition lower :: "string \<Rightarrow> string" where
  "lower s = map lower_char s"

text \<open>
  The slice \<^verbatim>\<open>xs[i:]\<close>: a negative start counts from the end and is clamped at the
  front of the list, a start beyond the end gives the empty list.
\<close>

definition slice_from :: "int \<Rightarrow> 'a list \<Rightarrow> 'a list" where
  "slice_from i xs =
     (let n = int (length xs);
          start = (if i < 0 then max (n + i) 0 else min i n)
      in drop (nat start) xs)"

text \<open>The slice \<^verbatim>\<open>xs[:j]\<close> for a start-less, non-negative stop.\<close>

definition slice_to :: "nat \<Rightarrow> 'a list \<Rightarrow> 'a list" where
  "slice_to j xs = take j xs"

subsection \<open>Inputs\<close>

text \<open>The six positional arguments, as \<^verbatim>\<open>parse_args\<close> hands them to \<^verbatim>\<open>main\<close>.\<close>

record args =
  instance_id :: string
  language :: string
  repo :: string
  base_commit :: string
  dockerfile :: string
  repo_path :: string

text \<open>
  An instance of Python's \<^verbatim>\<open>Exception\<close>, which is what the collaborators raise and
  what \<^verbatim>\<open>except Exception as e\<close> handles; the string is \<^verbatim>\<open>str(e)\<close>.
\<close>

datatype exn = Exception string

text \<open>
  What the collaborators do in one run, one field for each call that \<^verbatim>\<open>main\<close> makes:
  \<open>Inl e\<close> when the call raises \<open>e\<close>, \<open>Inr v\<close> when it returns \<open>v\<close>.
  \<^item> \<open>from_env\<close>: \<^verbatim>\<open>docker.from_env(timeout=720)\<close>;
  \<^item> \<open>base_check_image_local\<close>: \<^verbatim>\<open>base_docker_manager.check_image_local(...)\<close>;
  \<^item> \<open>build_base_image\<close>: \<^verbatim>\<open>base_docker_manager.build_base_image(...)\<close>;
  \<^item> \<open>check_image_local\<close>: \<^verbatim>\<open>docker_manager.check_image_local(...)\<close>;
  \<^item> \<open>clone_repo\<close>: \<^verbatim>\<open>repo_manager.clone_repo()\<close>, which leaves the clone's directory
    in \<^verbatim>\<open>repo_manager.tmp_repo_dir\<close>;
  \<^item> \<open>checkout_commit\<close>: \<^verbatim>\<open>repo_manager.checkout_commit(...)\<close>;
  \<^item> \<open>docker_build\<close>: \<^verbatim>\<open>docker_manager.docker_build(...)\<close>, returning the result code
    and leaving the log lines in \<^verbatim>\<open>docker_manager.build_logs\<close> (an empty or missing
    log is the empty list: both are false in \<^verbatim>\<open>if docker_manager.build_logs\<close>).

  Modelled from the spec: \<^verbatim>\<open>DockerManager.build_base_image\<close> is defined outside this
  script, which drops its value; the builder's contract gives it a result code as
  \<^verbatim>\<open>docker_build\<close> has, zero for success.
\<close>

record collab =
  from_env :: "exn + unit"
  base_check_image_local :: "exn + bool"
  build_base_image :: "exn + int"
  check_image_local :: "exn + bool"
  clone_repo :: "exn + string"
  checkout_commit :: "exn + unit"
  docker_build :: "exn + int \<times> string list"

subsection \<open>The trace of a run\<close>

text \<open>The variable that holds the receiver of a \<^verbatim>\<open>check_image_local\<close> call.\<close>

datatype receiver = base_docker_manager | docker_manager

text \<open>
  A call to a collaborator, with its arguments. A call on a \<^verbatim>\<open>DockerManager\<close> that
  builds carries the receiver's \<^verbatim>\<open>image_id\<close> first.
\<close>

datatype call =
    FromEnv nat
  | CheckImageLocal receiver string
  | BuildBaseImage string string
  | CloneRepo string string
  | CheckoutCommit string
  | DockerBuild string string string
  | Del

datatype outcome = Raised exn | Returned

definition outcome_of :: "exn + 'a \<Rightarrow> outcome" where
  "outcome_of r = (case r of Inl e \<Rightarrow> Raised e | Inr v \<Rightarrow> Returned)"

text \<open>
  An object with a finalizer that a local variable of \<^verbatim>\<open>main\<close> holds: the
  \<^verbatim>\<open>RepoManager\<close> of line 88, with its arguments. (Both \<^verbatim>\<open>DockerManager\<close> objects are
  made with \<^verbatim>\<open>delete_image=False\<close> and are left out.)
\<close>

datatype obj = RepoManager string string

text \<open>
  The method that the interpreter runs when the last reference to the object goes:
  \<^verbatim>\<open>__del__\<close>, the same method that line 101 calls by name.
\<close>

fun finalizer :: "obj \<Rightarrow> call" where
  "finalizer (RepoManager repo_name path) = Del"

text \<open>
  What a piece of the program leaves behind: the calls it made, each with its outcome,
  the lines it printed, and the objects it bound to locals, each in order.
\<close>

record trace =
  calls :: "(call \<times> outcome) list"
  stdout :: "string list"
  live :: "obj list"

definition then_trace :: "trace \<Rightarrow> trace \<Rightarrow> trace" where
  "then_trace t u =
     \<lparr>calls = calls t @ calls u, stdout = stdout t @ stdout u, live = live t @ live u\<rparr>"

text \<open>
  A piece of the program either returns a value or raises, and leaves its trace. What
  a collaborator answers is fixed by the \<open>collab\<close> of the run, so the trace is the
  only state there is.
\<close>

type_synonym 'a prog = "(exn + 'a) \<times> trace"

definition ret :: "'a \<Rightarrow> 'a prog" where
  "ret v = (Inr v, \<lparr>calls = [], stdout = [], live = []\<rparr>)"

text \<open>Sequencing: an exception skips the rest of the \<^verbatim>\<open>try\<close> block.\<close>

definition seq :: "'a prog \<Rightarrow> ('a \<Rightarrow> 'b prog) \<Rightarrow> 'b prog" where
  "seq m f =
     (case m of
        (Inl e, t) \<Rightarrow> (Inl e, t)
      | (Inr v, t) \<Rightarrow> (case f v of (r, u) \<Rightarrow> (r, then_trace t u)))"

definition print :: "string \<Rightarrow> unit prog" where
  "print l = (Inr (), \<lparr>calls = [], stdout = [l], live = []\<rparr>)"

definition invoke :: "call \<Rightarrow> exn + 'a \<Rightarrow> 'a prog" where
  "invoke c r = (r, \<lparr>calls = [(c, outcome_of r)], stdout = [], live = []\<rparr>)"

text \<open>An assignment of a new object to a local variable.\<close>

definition bind_local :: "obj \<Rightarrow> unit prog" where
  "bind_local ob = (Inr (), \<lparr>calls = [], stdout = [], live = [ob]\<rparr>)"

subsection \<open>Image names\<close>

text \<open>\<^verbatim>\<open>f"polybench_{language.lower()}_base"\<close>\<close>

definition base_image_id :: "string \<Rightarrow> string" where
  "base_image_id lang = ''polybench_'' @ lower lang @ ''_base''"

text \<open>\<^verbatim>\<open>f"polybench_{language.lower()}_{instance_id.lower()}"\<close>\<close>

definition image_id :: "string \<Rightarrow> string \<Rightarrow> string" where
  "image_id lang iid = ''polybench_'' @ lower lang @ ''_'' @ lower iid"

subsection \<open>main\<close>

text \<open>Lines 65 to 74: the base image, for every language but \<^verbatim>\<open>"Python"\<close>.\<close>

definition build_base_if_needed :: "args \<Rightarrow> collab \<Rightarrow> unit prog" where
  "build_base_if_needed a w =
     (if language a \<noteq> ''Python'' then
        seq (invoke (CheckImageLocal base_docker_manager (base_image_id (language a)))
               (base_check_image_local w)) (\<lambda>present.
        if \<not> present then
          seq (print (''Building base image for '' @ language a @ ''...'')) (\<lambda>_.
          seq (invoke (BuildBaseImage (base_image_id (language a)) (language a))
                 (build_base_image w)) (\<lambda>_.
          ret ()))
        else print (''Base image for '' @ language a @ '' already exists''))
      else ret ())"

text \<open>The loop of lines 108 and 109.\<close>

fun print_logs :: "string list \<Rightarrow> unit prog" where
  "print_logs [] = ret ()"
| "print_logs (l # ls) = seq (print (''  '' @ l)) (\<lambda>_. print_logs ls)"

text \<open>Lines 103 to 113: after the build and the clean-up.\<close>

definition report_build :: "args \<Rightarrow> int \<Rightarrow> string list \<Rightarrow> int prog" where
  "report_build a build_success build_logs =
     (if build_success \<noteq> 0 then
        seq (print (''Failed to build image for '' @ instance_id a)) (\<lambda>_.
        seq (if build_logs \<noteq> [] then
               seq (print ''Build logs:'') (\<lambda>_. print_logs (slice_from (- 10) build_logs))
             else ret ()) (\<lambda>_.
        ret 1))
      else
        seq (print (''Successfully built image '' @ image_id (language a) (instance_id a))) (\<lambda>_.
        ret 0))"

text \<open>
  Lines 77 to 113: the instance image. The constructors \<^verbatim>\<open>DockerManager(...)\<close> and
  \<^verbatim>\<open>RepoManager(...)\<close> store their arguments; line 88 binds the new \<^verbatim>\<open>RepoManager\<close> to
  the local \<^verbatim>\<open>repo_manager\<close>.

  Modelled from the spec: \<^verbatim>\<open>RepoManager.__del__\<close> is defined outside this script; the
  repository contract makes the release idempotent and safe to call, so the call on
  line 101 returns.
\<close>

definition build_instance :: "args \<Rightarrow> collab \<Rightarrow> int prog" where
  "build_instance a w =
     seq (invoke (CheckImageLocal docker_manager (image_id (language a) (instance_id a)))
            (check_image_local w)) (\<lambda>present.
     if present then
       seq (print (''Image '' @ image_id (language a) (instance_id a)
                    @ '' already exists locally'')) (\<lambda>_.
       ret 0)
     else
       seq (print (''Cloning repository '' @ repo a @ '' and checking out ''
                    @ slice_to 8 (base_commit a) @ ''...'')) (\<lambda>_.
       seq (bind_local (RepoManager (repo a) (repo_path a))) (\<lambda>_.
       seq (invoke (CloneRepo (repo a) (repo_path a)) (clone_repo w)) (\<lambda>tmp_repo_dir.
       seq (invoke (CheckoutCommit (base_commit a)) (checkout_commit w)) (\<lambda>_.
       seq (print (''Building Docker image '' @ image_id (language a) (instance_id a)
                    @ ''...'')) (\<lambda>_.
       seq (invoke (DockerBuild (image_id (language a) (instance_id a)) tmp_repo_dir
                      (dockerfile a)) (docker_build w)) (\<lambda>(build_success, build_logs).
       seq (invoke Del (Inr ())) (\<lambda>_.
       report_build a build_success build_logs))))))))"

text \<open>Lines 61 to 113: the body of the \<^verbatim>\<open>try\<close> block.\<close>

definition try_body :: "args \<Rightarrow> collab \<Rightarrow> int prog" where
  "try_body a w =
     seq (invoke (FromEnv 720) (from_env w)) (\<lambda>client.
     seq (build_base_if_needed a w) (\<lambda>_.
     build_instance a w))"

text \<open>
  \<^verbatim>\<open>main\<close>: the \<^verbatim>\<open>try\<close> block and its handler, that is, the statements of the
  function. The result is the value that \<^verbatim>\<open>main\<close> returns, with the calls made, the
  lines printed and the objects that its locals hold at the \<^verbatim>\<open>return\<close>.
\<close>

definition main :: "args \<Rightarrow> collab \<Rightarrow> int \<times> trace" where
  "main a w =
     (case try_body a w of
        (Inr status, t) \<Rightarrow> (status, t)
      | (Inl (Exception msg), t) \<Rightarrow>
          (1, then_trace t
                (snd (print (''Error building image for '' @ instance_id a @ '': '' @ msg)))))"

text \<open>
  The return of \<^verbatim>\<open>main\<close> to its caller. The frame of the call goes, and with it the
  only reference to each object that a local of \<^verbatim>\<open>main\<close> holds (the handler's
  \<^verbatim>\<open>e\<close>, whose traceback refers to the frames, is unbound when the \<^verbatim>\<open>except\<close> clause is
  left); the interpreter then runs the finalizer of each such object. Finalizers do not
  raise into the caller.
\<close>

definition release_frame :: "trace \<Rightarrow> trace" where
  "release_frame t =
     t\<lparr>calls := calls t @ map (\<lambda>ob. (finalizer ob, Returned)) (live t), live := []\<rparr>"

text \<open>One call \<^verbatim>\<open>main()\<close>, as its caller sees it.\<close>

definition main_call :: "args \<Rightarrow> collab \<Rightarrow> int \<times> trace" where
  "main_call a w = (case main a w of (returned, t) \<Rightarrow> (returned, release_frame t))"

text \<open>
  Lines 120 and 121: the guard evaluates the expression statement \<^verbatim>\<open>main()\<close>, whose
  value is dropped, and the module ends; an interpreter that reaches the end of the
  module exits with status 0.
\<close>

definition script :: "args \<Rightarrow> collab \<Rightarrow> int \<times> trace" where
  "script a w = (case main_call a w of (returned, t) \<Rightarrow> (0, t))"


section \<open>Observing a run\<close>

definition called :: "trace \<Rightarrow> call list" where
  "called t = map fst (calls t)"

fun is_clone :: "call \<Rightarrow> bool" where
  "is_clone (CloneRepo r p) = True"
| "is_clone c = False"

fun is_docker_build :: "call \<Rightarrow> bool" where
  "is_docker_build (DockerBuild i d f) = True"
| "is_docker_build c = False"

fun is_build_base :: "call \<Rightarrow> bool" where
  "is_build_base (BuildBaseImage i l) = True"
| "is_build_base c = False"


text \<open>\<open>x\<close> occurs in \<open>xs\<close> before the first \<open>y\<close>.\<close>

definition precedes :: "'a \<Rightarrow> 'a \<Rightarrow> 'a list \<Rightarrow> bool" where
  "precedes x y xs = (x \<in> set (takeWhile (\<lambda>z. z \<noteq> y) xs))"

text \<open>\<open>x\<close> occurs in \<open>xs\<close> behind the first \<open>y\<close>.\<close>

definition follows :: "'a \<Rightarrow> 'a \<Rightarrow> 'a list \<Rightarrow> bool" where
  "follows x y xs = (x \<in> set (tl (dropWhile (\<lambda>z. z \<noteq> y) xs)))"

text \<open>The log excerpt on the console: the lines after the line \<^verbatim>\<open>Build logs:\<close>.\<close>

definition log_excerpt :: "string list \<Rightarrow> string list" where
  "log_excerpt out = tl (dropWhile (\<lambda>l. l \<noteq> ''Build logs:'') out)"

text \<open>The final \<open>n\<close> elements of a list, in their order, read from its end.\<close>

definition final_lines :: "nat \<Rightarrow> 'a list \<Rightarrow> 'a list" where
  "final_lines n xs = rev (take n (rev xs))"



subsection \<open>Sample runs\<close>

definition java_x1 :: args where
  "java_x1 = \<lparr>instance_id = ''X1'', language = ''Java'', repo = ''org/lib'',
     base_commit = ''abc123def4567'', dockerfile = ''FROM maven'', repo_path = ''/tmp/r''\<rparr>"

definition python_x1 :: args where
  "python_x1 = \<lparr>instance_id = ''X1'', language = ''Python'', repo = ''org/lib'',
     base_commit = ''abc123'', dockerfile = ''FROM python:3.11'', repo_path = ''/tmp/r''\<rparr>"

text \<open>No image is there yet, and every call succeeds.\<close>

definition all_ok :: collab where
  "all_ok = \<lparr>from_env = Inr (), base_check_image_local = Inr False, build_base_image = Inr 0,
     check_image_local = Inr False, clone_repo = Inr ''/tmp/r/lib'', checkout_commit = Inr (),
     docker_build = Inr (0, [''Step 1/2'', ''Step 2/2''])\<rparr>"

definition twelve_lines :: "string list" where
  "twelve_lines = [''l1'', ''l2'', ''l3'', ''l4'', ''l5'', ''l6'', ''l7'', ''l8'', ''l9'',
     ''l10'', ''l11'', ''l12'']"

subsection \<open>Well-formed traces\<close>

definition all_returned :: "(call \<times> outcome) list \<Rightarrow> bool" where
  "all_returned cs = list_all (\<lambda>x. snd x = Returned) cs"

text \<open>
  Every call returned, but for the last one when the piece of program raises, and then
  the exception is the one that call raised.
\<close>

definition tidy :: "'a prog \<Rightarrow> bool" where
  "tidy m =
     (case fst m of
        Inl e \<Rightarrow> (\<exists>pre c. calls (snd m) = pre @ [(c, Raised e)] \<and> all_returned pre)
      | Inr v \<Rightarrow> all_returned (calls (snd m)))"

section \<open>Lemmas\<close>

subsection \<open>Strings and slices\<close>

lemmas case_defs = uppercase_def lowercase_def ascii_uppercase_def ascii_lowercase_def
  latin1_uppercase_def latin1_lowercase_def

lemmas lower_defs = lower_def lower_char_def is_upper_def case_defs











lemma slice_from_minus: "slice_from (- 10) xs = drop (length xs - 10) xs"
  by (simp add: slice_from_def Let_def nat_diff_distrib' max_def)

lemma final_lines_drop: "final_lines n xs = drop (length xs - n) xs"
  by (simp add: final_lines_def take_rev)

subsection \<open>The trace of a sequence\<close>

lemma fst_seq: "fst (seq m f) = (case fst m of Inl e \<Rightarrow> Inl e | Inr v \<Rightarrow> fst (f v))"
  by (simp add: seq_def split: prod.splits sum.splits)

lemma calls_seq:
  "calls (snd (seq m f)) = calls (snd m) @ (case fst m of Inl e \<Rightarrow> [] | Inr v \<Rightarrow> calls (snd (f v)))"
  by (simp add: seq_def then_trace_def split: prod.splits sum.splits)

lemma stdout_seq:
  "stdout (snd (seq m f)) = stdout (snd m) @ (case fst m of Inl e \<Rightarrow> [] | Inr v \<Rightarrow> stdout (snd (f v)))"
  by (simp add: seq_def then_trace_def split: prod.splits sum.splits)

lemma live_seq:
  "live (snd (seq m f)) = live (snd m) @ (case fst m of Inl e \<Rightarrow> [] | Inr v \<Rightarrow> live (snd (f v)))"
  by (simp add: seq_def then_trace_def split: prod.splits sum.splits)

lemma bind_local_simps: "fst (bind_local ob) = Inr ()" "calls (snd (bind_local ob)) = []"
    "stdout (snd (bind_local ob)) = []" "live (snd (bind_local ob)) = [ob]"
  by (simp_all add: bind_local_def)

lemma live_simps: "live (snd (ret v)) = []" "live (snd (print l)) = []"
    "live (snd (invoke c r)) = []"
  by (simp_all add: ret_def print_def invoke_def)

lemma ret_simps: "fst (ret v) = Inr v" "calls (snd (ret v)) = []" "stdout (snd (ret v)) = []"
  by (simp_all add: ret_def)

lemma print_simps: "fst (print l) = Inr ()" "calls (snd (print l)) = []" "stdout (snd (print l)) = [l]"
  by (simp_all add: print_def)

lemma invoke_simps: "fst (invoke c r) = r" "calls (snd (invoke c r)) = [(c, outcome_of r)]"
    "stdout (snd (invoke c r)) = []"
  by (simp_all add: invoke_def)

lemma print_logs_simps: "fst (print_logs ls) = Inr ()" "calls (snd (print_logs ls)) = []"
    "stdout (snd (print_logs ls)) = map ((@) ''  '') ls"
  by (induction ls) (simp_all add: fst_seq calls_seq stdout_seq ret_simps print_simps)

lemma live_print_logs: "live (snd (print_logs ls)) = []"
  by (induction ls) (simp_all add: fst_seq live_seq live_simps print_simps)

lemmas prog_simps = fst_seq calls_seq stdout_seq live_seq ret_simps print_simps invoke_simps
  print_logs_simps bind_local_simps live_simps live_print_logs

subsection \<open>The result, the calls and the lines of each part of main\<close>

lemma fst_main: "fst (main a w) = (case fst (try_body a w) of Inl e \<Rightarrow> 1 | Inr status \<Rightarrow> status)"
  by (simp add: main_def split: prod.splits sum.splits exn.splits)

lemma calls_main: "calls (snd (main a w)) = calls (snd (try_body a w))"
  by (simp add: main_def then_trace_def print_def split: prod.splits sum.splits exn.splits)

lemma stdout_main: "stdout (snd (main a w)) = stdout (snd (try_body a w)) @
    (case fst (try_body a w) of Inl (Exception msg) \<Rightarrow> [''Error building image for '' @ instance_id a @ '': '' @ msg]
      | Inr status \<Rightarrow> [])"
  by (simp add: main_def then_trace_def print_def split: prod.splits sum.splits exn.splits)

lemma fst_try_body: "fst (try_body a w) = (case from_env w of Inl e \<Rightarrow> Inl e | Inr c \<Rightarrow>
    (case fst (build_base_if_needed a w) of Inl e \<Rightarrow> Inl e | Inr u \<Rightarrow> fst (build_instance a w)))"
  by (simp add: try_body_def prog_simps split: sum.splits)

lemma calls_try_body: "calls (snd (try_body a w)) = (FromEnv 720, outcome_of (from_env w)) #
   (case from_env w of Inl e \<Rightarrow> [] | Inr c \<Rightarrow> calls (snd (build_base_if_needed a w)) @
    (case fst (build_base_if_needed a w) of Inl e \<Rightarrow> [] | Inr u \<Rightarrow> calls (snd (build_instance a w))))"
  by (simp add: try_body_def prog_simps split: sum.splits)

lemma stdout_try_body: "stdout (snd (try_body a w)) = 
   (case from_env w of Inl e \<Rightarrow> [] | Inr c \<Rightarrow> stdout (snd (build_base_if_needed a w)) @
    (case fst (build_base_if_needed a w) of Inl e \<Rightarrow> [] | Inr u \<Rightarrow> stdout (snd (build_instance a w))))"
  by (simp add: try_body_def prog_simps split: sum.splits)

lemma fst_base: "fst (build_base_if_needed a w) =
   (if language a \<noteq> ''Python'' then
      (case base_check_image_local w of Inl e \<Rightarrow> Inl e
       | Inr present \<Rightarrow> if \<not> present then (case build_base_image w of Inl e \<Rightarrow> Inl e | Inr c \<Rightarrow> Inr ())
                        else Inr ())
    else Inr ())"
  by (simp add: build_base_if_needed_def prog_simps split: sum.splits)

lemma calls_base: "calls (snd (build_base_if_needed a w)) =
   (if language a \<noteq> ''Python'' then
      (CheckImageLocal base_docker_manager (base_image_id (language a)),
       outcome_of (base_check_image_local w)) #
      (case base_check_image_local w of Inl e \<Rightarrow> []
       | Inr present \<Rightarrow>
           if \<not> present
           then [(BuildBaseImage (base_image_id (language a)) (language a),
                  outcome_of (build_base_image w))]
           else [])
    else [])"
  by (simp add: build_base_if_needed_def prog_simps split: sum.splits)

lemma stdout_base: "stdout (snd (build_base_if_needed a w)) =
   (if language a \<noteq> ''Python'' then
      (case base_check_image_local w of Inl e \<Rightarrow> []
       | Inr present \<Rightarrow>
           if \<not> present then [''Building base image for '' @ language a @ ''...'']
           else [''Base image for '' @ language a @ '' already exists''])
    else [])"
  by (simp add: build_base_if_needed_def prog_simps split: sum.splits)

lemma fst_report: "fst (report_build a code logs) = Inr (if code \<noteq> 0 then 1 else 0)"
  by (simp add: report_build_def prog_simps)

lemma calls_report: "calls (snd (report_build a code logs)) = []"
  by (simp add: report_build_def prog_simps)

lemma stdout_report: "stdout (snd (report_build a code logs)) =
   (if code \<noteq> 0 then
      (''Failed to build image for '' @ instance_id a) #
      (if logs \<noteq> [] then ''Build logs:'' # map ((@) ''  '') (slice_from (- 10) logs) else [])
    else [''Successfully built image '' @ image_id (language a) (instance_id a)])"
  by (simp add: report_build_def prog_simps)

lemma fst_inst: "fst (build_instance a w) =
   (case check_image_local w of Inl e \<Rightarrow> Inl e
    | Inr present \<Rightarrow>
        if present then Inr 0
        else (case clone_repo w of Inl e \<Rightarrow> Inl e
              | Inr d \<Rightarrow> (case checkout_commit w of Inl e \<Rightarrow> Inl e
                  | Inr u \<Rightarrow> (case docker_build w of Inl e \<Rightarrow> Inl e
                      | Inr (code, logs) \<Rightarrow> Inr (if code \<noteq> 0 then 1 else 0)))))"
  by (simp add: build_instance_def prog_simps fst_report split: sum.splits prod.splits)

lemma calls_inst: "calls (snd (build_instance a w)) =
   (CheckImageLocal docker_manager (image_id (language a) (instance_id a)),
    outcome_of (check_image_local w)) #
   (case check_image_local w of Inl e \<Rightarrow> []
    | Inr present \<Rightarrow>
        if present then []
        else (CloneRepo (repo a) (repo_path a), outcome_of (clone_repo w)) #
             (case clone_repo w of Inl e \<Rightarrow> []
              | Inr d \<Rightarrow> (CheckoutCommit (base_commit a), outcome_of (checkout_commit w)) #
                  (case checkout_commit w of Inl e \<Rightarrow> []
                   | Inr u \<Rightarrow> (DockerBuild (image_id (language a) (instance_id a)) d (dockerfile a),
                                outcome_of (docker_build w)) #
                       (case docker_build w of Inl e \<Rightarrow> [] | Inr r \<Rightarrow> [(Del, Returned)]))))"
  by (simp add: build_instance_def prog_simps calls_report outcome_of_def split: sum.splits prod.splits)

lemma stdout_inst: "stdout (snd (build_instance a w)) =
   (case check_image_local w of Inl e \<Rightarrow> []
    | Inr present \<Rightarrow>
        if present
        then [''Image '' @ image_id (language a) (instance_id a) @ '' already exists locally'']
        else (''Cloning repository '' @ repo a @ '' and checking out ''
               @ slice_to 8 (base_commit a) @ ''...'') #
             (case clone_repo w of Inl e \<Rightarrow> []
              | Inr d \<Rightarrow> (case checkout_commit w of Inl e \<Rightarrow> []
                   | Inr u \<Rightarrow> (''Building Docker image '' @ image_id (language a) (instance_id a)
                                 @ ''...'') #
                       (case docker_build w of Inl e \<Rightarrow> []
                        | Inr (code, logs) \<Rightarrow> stdout (snd (report_build a code logs))))))"
  by (simp add: build_instance_def prog_simps split: sum.splits prod.splits)

lemmas run_simps = fst_main calls_main stdout_main fst_try_body calls_try_body stdout_try_body
  fst_base calls_base stdout_base fst_inst calls_inst stdout_inst

subsection \<open>The objects that main holds, and its return\<close>

lemma live_main: "live (snd (main a w)) = live (snd (try_body a w))"
  by (simp add: main_def then_trace_def print_def split: prod.splits sum.splits exn.splits)

lemma live_base: "live (snd (build_base_if_needed a w)) = []"
  by (simp add: build_base_if_needed_def prog_simps split: sum.splits)

lemma live_report: "live (snd (report_build a code logs)) = []"
  by (simp add: report_build_def prog_simps)

lemma live_inst: "live (snd (build_instance a w)) =
   (case check_image_local w of Inl e \<Rightarrow> []
    | Inr present \<Rightarrow> if present then [] else [RepoManager (repo a) (repo_path a)])"
  by (simp add: build_instance_def prog_simps live_report split: sum.splits prod.splits)

lemma live_try_body: "live (snd (try_body a w)) =
   (case from_env w of Inl e \<Rightarrow> [] | Inr c \<Rightarrow>
    (case fst (build_base_if_needed a w) of Inl e \<Rightarrow> [] | Inr u \<Rightarrow> live (snd (build_instance a w))))"
  by (simp add: try_body_def prog_simps live_base split: sum.splits)

lemma main_call_simps:
  "fst (main_call a w) = fst (main a w)"
  "calls (snd (main_call a w)) =
     calls (snd (main a w)) @ map (\<lambda>ob. (finalizer ob, Returned)) (live (snd (main a w)))"
  "stdout (snd (main_call a w)) = stdout (snd (main a w))"
  "live (snd (main_call a w)) = []"
  by (simp_all add: main_call_def release_frame_def split: prod.splits)

lemma fst_script: "fst (script a w) = 0"
  by (simp add: script_def split: prod.splits)

lemma reaches_clone:
  assumes "CloneRepo r p \<in> set (called (snd (main a w)))"
  shows "from_env w = Inr () \<and> fst (build_base_if_needed a w) = Inr () \<and>
         check_image_local w = Inr False \<and> r = repo a \<and> p = repo_path a"
  using assms
  by (auto simp: calls_main calls_try_body calls_base calls_inst outcome_of_def called_def
           split: sum.splits if_splits)

lemma follows_appended:
  assumes "y \<in> set xs"
  shows "follows x y (xs @ [x])"
proof -
  from assms have "dropWhile (\<lambda>z. z \<noteq> y) (xs @ [x]) = dropWhile (\<lambda>z. z \<noteq> y) xs @ [x]"
    by (simp add: dropWhile_append1)
  moreover from assms have "dropWhile (\<lambda>z. z \<noteq> y) xs \<noteq> []"
    by (auto simp: dropWhile_eq_Nil_conv)
  ultimately show ?thesis by (simp add: follows_def)
qed

subsection \<open>An exception ends the run\<close>

lemma tidy_ret: "tidy (ret v)"
  by (simp add: tidy_def all_returned_def ret_simps)

lemma tidy_bind_local: "tidy (bind_local ob)"
  by (simp add: tidy_def all_returned_def bind_local_simps)

lemma tidy_print: "tidy (print l)"
  by (simp add: tidy_def all_returned_def print_simps)

lemma tidy_invoke: "tidy (invoke c r)"
  by (cases r) (simp_all add: tidy_def all_returned_def invoke_simps outcome_of_def)

lemma tidy_seq:
  assumes "tidy m" and "\<And>v. tidy (f v)"
  shows "tidy (seq m f)"
proof (cases "fst m")
  case (Inl e)
  with assms(1) show ?thesis
    by (simp add: tidy_def fst_seq calls_seq)
next
  case (Inr v)
  with assms(1) have m: "all_returned (calls (snd m))"
    by (simp add: tidy_def)
  show ?thesis
  proof (cases "fst (f v)")
    case (Inl e)
    with assms(2)[of v] obtain pre c
      where "calls (snd (f v)) = pre @ [(c, Raised e)]" "all_returned pre"
      by (auto simp: tidy_def)
    with m Inr Inl show ?thesis
      by (auto simp: tidy_def fst_seq calls_seq all_returned_def
               intro!: exI[of _ "calls (snd m) @ pre"])
  next
    case r: (Inr u)
    with assms(2)[of v] m Inr show ?thesis
      by (simp add: tidy_def fst_seq calls_seq all_returned_def)
  qed
qed

lemma tidy_print_logs: "tidy (print_logs ls)"
  by (simp add: tidy_def all_returned_def print_logs_simps)

lemma tidy_report: "tidy (report_build a code logs)"
  by (simp add: tidy_def all_returned_def fst_report calls_report)

lemma tidy_base: "tidy (build_base_if_needed a w)"
  unfolding build_base_if_needed_def
  by (auto intro!: tidy_seq tidy_invoke tidy_print tidy_ret)

lemma tidy_inst: "tidy (build_instance a w)"
  unfolding build_instance_def
  by (auto intro!: tidy_seq tidy_invoke tidy_print tidy_ret tidy_report tidy_bind_local
           split: prod.splits)

lemma tidy_try_body: "tidy (try_body a w)"
  unfolding try_body_def
  by (intro tidy_seq tidy_invoke tidy_base tidy_inst)

lemma tidy_raised:
  assumes "tidy m" and "(c, Raised e) \<in> set (calls (snd m))"
  shows "fst m = Inl e \<and> last (calls (snd m)) = (c, Raised e)"
proof (cases "fst m")
  case (Inl e')
  with assms(1) obtain pre c' where *: "calls (snd m) = pre @ [(c', Raised e')]" "all_returned pre"
    by (auto simp: tidy_def)
  with assms(2) have "(c, Raised e) = (c', Raised e')"
    by (auto simp: all_returned_def list_all_iff)
  with * Inl show ?thesis by simp
next
  case (Inr v)
  with assms show ?thesis
    by (auto simp: tidy_def all_returned_def list_all_iff)
qed

subsection \<open>The console after a failed build\<close>

lemma reaches_build:
  assumes "(DockerBuild i d f, Returned) \<in> set (calls (snd (main a w)))"
  shows "from_env w = Inr () \<and> fst (build_base_if_needed a w) = Inr () \<and>
         check_image_local w = Inr False \<and> clone_repo w = Inr d \<and> checkout_commit w = Inr ()"
  using assms
  by (auto simp: calls_main calls_try_body calls_base calls_inst outcome_of_def
           split: sum.splits if_splits)

lemma stdout_base_lines: "''Build logs:'' \<notin> set (stdout (snd (build_base_if_needed a w)))"
  by (cases "language a = ''Python''"; cases "base_check_image_local w")
     (simp_all add: stdout_base)

lemma log_excerpt_found:
  "''Build logs:'' \<notin> set pre \<Longrightarrow> log_excerpt (pre @ ''Build logs:'' # ls) = ls"
  unfolding log_excerpt_def by (induction pre) auto

lemma log_excerpt_none: "''Build logs:'' \<notin> set out \<Longrightarrow> log_excerpt out = []"
  unfolding log_excerpt_def by (induction out) auto

lemma stdout_failed_build:
  assumes "(DockerBuild i d f, Returned) \<in> set (calls (snd (main a w)))"
    and "docker_build w = Inr (code, logs)" and "code \<noteq> 0"
  shows "\<exists>pre. ''Build logs:'' \<notin> set pre \<and> stdout (snd (main a w)) =
     pre @ (if logs \<noteq> [] then ''Build logs:'' # map ((@) ''  '') (slice_from (- 10) logs) else [])"
proof -
  let ?pre = "stdout (snd (build_base_if_needed a w)) @
     [''Cloning repository '' @ repo a @ '' and checking out '' @ slice_to 8 (base_commit a) @ ''...'',
      ''Building Docker image '' @ image_id (language a) (instance_id a) @ ''...'',
      ''Failed to build image for '' @ instance_id a]"
  from reaches_build[OF assms(1)] assms(2,3)
  have "stdout (snd (main a w)) =
     ?pre @ (if logs \<noteq> [] then ''Build logs:'' # map ((@) ''  '') (slice_from (- 10) logs) else [])"
    by (simp add: stdout_main stdout_try_body fst_try_body stdout_inst fst_inst stdout_report)
  moreover have "''Build logs:'' \<notin> set ?pre"
    using stdout_base_lines[of a w] by simp
  ultimately show ?thesis by blast
qed

subsection \<open>The sample runs\<close>

lemma names_java_x1:
  "base_image_id ''Java'' = ''polybench_java_base''"
  "image_id ''Java'' ''X1'' = ''polybench_java_x1''"
  by (simp_all add: base_image_id_def image_id_def lower_defs)

lemma names_python_x1:
  "base_image_id ''Python'' = ''polybench_python_base''"
  "base_image_id ''python'' = ''polybench_python_base''"
  "image_id ''Python'' ''X1'' = ''polybench_python_x1''"
  by (simp_all add: base_image_id_def image_id_def lower_defs)

lemmas sample_simps = run_simps outcome_of_def called_def java_x1_def python_x1_def all_ok_def
  names_java_x1 names_python_x1 stdout_report slice_to_def

lemmas return_simps = main_call_simps live_main live_try_body live_inst fst_base

section \<open>The claims\<close>

text \<open>
  Claim C1: the value that the run returns is the exit status of the process, 0 when the
  image is ready and 1 on any failure. The script does not do this. In the sample run
  the instance build returns the result code 1 and \<^verbatim>\<open>main\<close> returns 1, but the guard
  calls \<^verbatim>\<open>main()\<close> as a statement and the process ends with status 0.
\<close>

theorem exit_status_dropped:
  "fst (main java_x1 (all_ok\<lparr>docker_build := Inr (1, [''error''])\<rparr>)) = 1 \<and>
   fst (script java_x1 (all_ok\<lparr>docker_build := Inr (1, [''error''])\<rparr>)) = 0"
  by (simp add: fst_script sample_simps)

text \<open>
  Claim C2: in every run that reaches the clone step, the release of the workspace
  (\<^verbatim>\<open>__del__\<close> of the \<^verbatim>\<open>RepoManager\<close>) has run behind the clone once the call of \<^verbatim>\<open>main\<close>
  has returned, and \<^verbatim>\<open>main\<close> holds no object any more. This covers every way out: a
  build that returns 0 or another code (where line 101 has called the release as well),
  a checkout that raises and a build that raises (where the release runs as the
  finalizer of the local \<^verbatim>\<open>repo_manager\<close>).
\<close>

theorem workspace_released_on_every_path:
  assumes "CloneRepo r p \<in> set (called (snd (main a w)))"
  shows "follows Del (CloneRepo r p) (called (snd (main_call a w))) \<and>
     live (snd (main_call a w)) = [] \<and>
     fst (main_call a w) = fst (main a w)"
proof -
  from reaches_clone[OF assms]
  have "called (snd (main_call a w)) = called (snd (main a w)) @ [Del]"
    by (simp add: called_def return_simps)
  with follows_appended[OF assms, of Del] show ?thesis
    by (simp add: main_call_simps)
qed

theorem workspace_released_on_every_path_witness:
  "CloneRepo ''org/lib'' ''/tmp/r''
     \<in> set (called (snd (main java_x1 (all_ok\<lparr>checkout_commit := Inl (Exception ''bad object'')\<rparr>)))) \<and>
   called (snd (main_call java_x1 (all_ok\<lparr>checkout_commit := Inl (Exception ''bad object'')\<rparr>))) =
     [FromEnv 720, CheckImageLocal base_docker_manager ''polybench_java_base'',
      BuildBaseImage ''polybench_java_base'' ''Java'',
      CheckImageLocal docker_manager ''polybench_java_x1'',
      CloneRepo ''org/lib'' ''/tmp/r'', CheckoutCommit ''abc123def4567'', Del] \<and>
   follows Del (CloneRepo ''org/lib'' ''/tmp/r'')
     (called (snd (main_call java_x1 (all_ok\<lparr>checkout_commit := Inl (Exception ''bad object'')\<rparr>)))) \<and>
   fst (main_call java_x1 (all_ok\<lparr>checkout_commit := Inl (Exception ''bad object'')\<rparr>)) = 1"
proof -
  have cloned: "CloneRepo ''org/lib'' ''/tmp/r''
     \<in> set (called (snd (main java_x1 (all_ok\<lparr>checkout_commit := Inl (Exception ''bad object'')\<rparr>))))"
    by (simp add: sample_simps)
  have trace: "called (snd (main_call java_x1
        (all_ok\<lparr>checkout_commit := Inl (Exception ''bad object'')\<rparr>))) =
     [FromEnv 720, CheckImageLocal base_docker_manager ''polybench_java_base'',
      BuildBaseImage ''polybench_java_base'' ''Java'',
      CheckImageLocal docker_manager ''polybench_java_x1'',
      CloneRepo ''org/lib'' ''/tmp/r'', CheckoutCommit ''abc123def4567'', Del]"
    by (simp add: sample_simps return_simps)
  have status: "fst (main java_x1 (all_ok\<lparr>checkout_commit := Inl (Exception ''bad object'')\<rparr>)) = 1"
    by (simp add: sample_simps)
  from workspace_released_on_every_path[OF cloned] cloned trace status
  show ?thesis by simp
qed

text \<open>
  Claim C3: when the base image is absent and its build fails, the run returns 1 and
  neither clones nor builds the instance. The script drops what \<^verbatim>\<open>build_base_image\<close>
  returns. In the sample run the base build returns the result code 1; the run goes
  on to clone the repository and to build the instance image, and returns 0.
\<close>

theorem base_build_failure_ignored:
  "(BuildBaseImage ''polybench_java_base'' ''Java'', Returned)
     \<in> set (calls (snd (main java_x1 (all_ok\<lparr>build_base_image := Inr 1\<rparr>)))) \<and>
   CloneRepo ''org/lib'' ''/tmp/r''
     \<in> set (called (snd (main java_x1 (all_ok\<lparr>build_base_image := Inr 1\<rparr>)))) \<and>
   DockerBuild ''polybench_java_x1'' ''/tmp/r/lib'' ''FROM maven''
     \<in> set (called (snd (main java_x1 (all_ok\<lparr>build_base_image := Inr 1\<rparr>)))) \<and>
   fst (main java_x1 (all_ok\<lparr>build_base_image := Inr 1\<rparr>)) = 0"
  by (simp add: sample_simps)

text \<open>
  Claim C4 as stated (an instance image that is present means no clone, no build and
  the status 0) fails for a language that needs a base image: the base image is
  handled before the instance image is looked up. In the sample run the instance image
  is present and the base image is not; the base build is called, it raises, and the
  run returns 1.
\<close>

theorem present_image_counterexample:
  "check_image_local (all_ok\<lparr>build_base_image := Inl (Exception ''no network''),
       check_image_local := Inr True\<rparr>) = Inr True \<and>
   BuildBaseImage ''polybench_java_base'' ''Java''
     \<in> set (called (snd (main java_x1 (all_ok\<lparr>build_base_image := Inl (Exception ''no network''),
            check_image_local := Inr True\<rparr>)))) \<and>
   fst (main java_x1 (all_ok\<lparr>build_base_image := Inl (Exception ''no network''),
            check_image_local := Inr True\<rparr>)) = 1"
  by (simp add: sample_simps)

text \<open>
  Claim C4, amended. In every run whose registry reports the instance image present:
  \<^item> nothing is cloned and no instance image is built;
  \<^item> when the client is made and the language is \<^verbatim>\<open>"Python"\<close> or the base image is
    reported present (as on a second run behind one that built both images), no build
    at all is made and the run returns 0;
  \<^item> when the client is made and the base image of another language is reported
    absent, the base build is called, and before the check of the instance image; if
    it returns the code 0 the run returns 0;
  \<^item> when making the client, the check of the base image or the base build raises, the
    run returns 1 and the check of the instance image is not reached.

  (Of a base build that returns another code than 0 nothing is said here.)
\<close>

theorem present_image_skips_clone_and_build:
  assumes "check_image_local w = Inr True"
  shows "(\<forall>c\<in>set (called (snd (main a w))). \<not> is_clone c \<and> \<not> is_docker_build c) \<and>
    (from_env w = Inr () \<and> (language a = ''Python'' \<or> base_check_image_local w = Inr True) \<longrightarrow>
       fst (main a w) = 0 \<and> (\<forall>c\<in>set (called (snd (main a w))). \<not> is_build_base c)) \<and>
    (from_env w = Inr () \<and> language a \<noteq> ''Python'' \<and> base_check_image_local w = Inr False \<longrightarrow>
       BuildBaseImage (base_image_id (language a)) (language a) \<in> set (called (snd (main a w))) \<and>
       precedes (BuildBaseImage (base_image_id (language a)) (language a))
         (CheckImageLocal docker_manager (image_id (language a) (instance_id a)))
         (called (snd (main a w))) \<and>
       (build_base_image w = Inr 0 \<longrightarrow> fst (main a w) = 0)) \<and>
    (isl (from_env w) \<or>
     language a \<noteq> ''Python'' \<and>
       (isl (base_check_image_local w) \<or>
        base_check_image_local w = Inr False \<and> isl (build_base_image w)) \<longrightarrow>
       fst (main a w) = 1 \<and>
       CheckImageLocal docker_manager (image_id (language a) (instance_id a))
         \<notin> set (called (snd (main a w))))"
proof -
  from assms
  have "\<forall>c\<in>set (called (snd (main a w))). \<not> is_clone c \<and> \<not> is_docker_build c"
    by (auto simp: run_simps outcome_of_def called_def split: sum.splits if_splits)
  moreover from assms
  have "from_env w = Inr () \<and> (language a = ''Python'' \<or> base_check_image_local w = Inr True) \<longrightarrow>
       fst (main a w) = 0 \<and> (\<forall>c\<in>set (called (snd (main a w))). \<not> is_build_base c)"
    by (auto simp: run_simps outcome_of_def called_def)
  moreover from assms
  have "from_env w = Inr () \<and> language a \<noteq> ''Python'' \<and> base_check_image_local w = Inr False \<longrightarrow>
       BuildBaseImage (base_image_id (language a)) (language a) \<in> set (called (snd (main a w))) \<and>
       precedes (BuildBaseImage (base_image_id (language a)) (language a))
         (CheckImageLocal docker_manager (image_id (language a) (instance_id a)))
         (called (snd (main a w))) \<and>
       (build_base_image w = Inr 0 \<longrightarrow> fst (main a w) = 0)"
    by (auto simp: run_simps outcome_of_def called_def precedes_def split: sum.splits)
  moreover
  have "isl (from_env w) \<or>
     language a \<noteq> ''Python'' \<and>
       (isl (base_check_image_local w) \<or>
        base_check_image_local w = Inr False \<and> isl (build_base_image w)) \<longrightarrow>
       fst (main a w) = 1 \<and>
       CheckImageLocal docker_manager (image_id (language a) (instance_id a))
         \<notin> set (called (snd (main a w)))"
    by (auto simp: run_simps outcome_of_def called_def isl_def split: sum.splits)
  ultimately show ?thesis by blast
qed

theorem present_image_skips_clone_and_build_witness:
  "check_image_local (all_ok\<lparr>check_image_local := Inr True\<rparr>) = Inr True \<and>
   from_env (all_ok\<lparr>check_image_local := Inr True\<rparr>) = Inr () \<and>
   language python_x1 = ''Python'' \<and>
   called (snd (main python_x1 (all_ok\<lparr>check_image_local := Inr True\<rparr>)))
     = [FromEnv 720, CheckImageLocal docker_manager ''polybench_python_x1''] \<and>
   fst (main python_x1 (all_ok\<lparr>check_image_local := Inr True\<rparr>)) = 0 \<and>
   language java_x1 \<noteq> ''Python'' \<and>
   base_check_image_local (all_ok\<lparr>check_image_local := Inr True\<rparr>) = Inr False \<and>
   build_base_image (all_ok\<lparr>check_image_local := Inr True\<rparr>) = Inr 0 \<and>
   called (snd (main java_x1 (all_ok\<lparr>check_image_local := Inr True\<rparr>)))
     = [FromEnv 720, CheckImageLocal base_docker_manager ''polybench_java_base'',
        BuildBaseImage ''polybench_java_base'' ''Java'',
        CheckImageLocal docker_manager ''polybench_java_x1''] \<and>
   fst (main java_x1 (all_ok\<lparr>check_image_local := Inr True\<rparr>)) = 0 \<and>
   isl (base_check_image_local (all_ok\<lparr>check_image_local := Inr True,
          base_check_image_local := Inl (Exception ''daemon down'')\<rparr>)) \<and>
   fst (main java_x1 (all_ok\<lparr>check_image_local := Inr True,
          base_check_image_local := Inl (Exception ''daemon down'')\<rparr>)) = 1 \<and>
   CheckImageLocal docker_manager ''polybench_java_x1''
     \<notin> set (called (snd (main java_x1 (all_ok\<lparr>check_image_local := Inr True,
          base_check_image_local := Inl (Exception ''daemon down'')\<rparr>))))"
proof -
  have facts: "check_image_local (all_ok\<lparr>check_image_local := Inr True\<rparr>) = Inr True"
    "from_env (all_ok\<lparr>check_image_local := Inr True\<rparr>) = Inr ()"
    "base_check_image_local (all_ok\<lparr>check_image_local := Inr True\<rparr>) = Inr False"
    "build_base_image (all_ok\<lparr>check_image_local := Inr True\<rparr>) = Inr 0"
    "language python_x1 = ''Python''" "language java_x1 \<noteq> ''Python''"
    "check_image_local (all_ok\<lparr>check_image_local := Inr True,
          base_check_image_local := Inl (Exception ''daemon down'')\<rparr>) = Inr True"
    "isl (base_check_image_local (all_ok\<lparr>check_image_local := Inr True,
          base_check_image_local := Inl (Exception ''daemon down'')\<rparr>))"
    by (simp_all add: all_ok_def python_x1_def java_x1_def)
  have names: "image_id (language java_x1) (instance_id java_x1) = ''polybench_java_x1''"
    by (simp add: java_x1_def names_java_x1)
  have py: "called (snd (main python_x1 (all_ok\<lparr>check_image_local := Inr True\<rparr>)))
     = [FromEnv 720, CheckImageLocal docker_manager ''polybench_python_x1'']"
    by (simp add: sample_simps)
  have java: "called (snd (main java_x1 (all_ok\<lparr>check_image_local := Inr True\<rparr>)))
     = [FromEnv 720, CheckImageLocal base_docker_manager ''polybench_java_base'',
        BuildBaseImage ''polybench_java_base'' ''Java'',
        CheckImageLocal docker_manager ''polybench_java_x1'']"
    by (simp add: sample_simps)
  from present_image_skips_clone_and_build[OF facts(1), of python_x1]
       present_image_skips_clone_and_build[OF facts(1), of java_x1]
       present_image_skips_clone_and_build[OF facts(7), of java_x1]
       facts names py java
  show ?thesis by simp
qed

text \<open>
  Claim C5: in every run in which the instance build returns a result code other than 0,
  the log excerpt on the console has at most 10 lines, and when the build left more than
  10 log lines the excerpt is the final 10 of them, in their order (each printed behind
  two spaces).
\<close>

theorem log_excerpt_is_final_ten:
  assumes "(DockerBuild i d f, Returned) \<in> set (calls (snd (main a w)))"
    and "docker_build w = Inr (code, logs)" and "code \<noteq> 0"
  shows "length (log_excerpt (stdout (snd (main a w)))) \<le> 10 \<and>
     (10 < length logs \<longrightarrow>
        log_excerpt (stdout (snd (main a w))) = map ((@) ''  '') (final_lines 10 logs))"
proof -
  from stdout_failed_build[OF assms] obtain pre where pre: "''Build logs:'' \<notin> set pre"
    and out: "stdout (snd (main a w)) =
     pre @ (if logs \<noteq> [] then ''Build logs:'' # map ((@) ''  '') (slice_from (- 10) logs) else [])"
    by blast
  show ?thesis
  proof (cases "logs = []")
    case True
    with pre out show ?thesis by (simp add: log_excerpt_none)
  next
    case False
    with pre out
    have "log_excerpt (stdout (snd (main a w))) = map ((@) ''  '') (slice_from (- 10) logs)"
      by (simp add: log_excerpt_found)
    then show ?thesis
      by (simp add: slice_from_minus final_lines_drop)
  qed
qed

theorem log_excerpt_is_final_ten_witness:
  "(DockerBuild ''polybench_java_x1'' ''/tmp/r/lib'' ''FROM maven'', Returned)
      \<in> set (calls (snd (main java_x1 (all_ok\<lparr>docker_build := Inr (1, twelve_lines)\<rparr>)))) \<and>
   docker_build (all_ok\<lparr>docker_build := Inr (1, twelve_lines)\<rparr>) = Inr (1, twelve_lines) \<and>
   (1 :: int) \<noteq> 0 \<and> 10 < length twelve_lines \<and>
   log_excerpt (stdout (snd (main java_x1 (all_ok\<lparr>docker_build := Inr (1, twelve_lines)\<rparr>))))
     = [''  l3'', ''  l4'', ''  l5'', ''  l6'', ''  l7'', ''  l8'', ''  l9'', ''  l10'',
        ''  l11'', ''  l12'']"
proof -
  have reached: "(DockerBuild ''polybench_java_x1'' ''/tmp/r/lib'' ''FROM maven'', Returned)
      \<in> set (calls (snd (main java_x1 (all_ok\<lparr>docker_build := Inr (1, twelve_lines)\<rparr>))))"
    by (simp add: sample_simps)
  have built: "docker_build (all_ok\<lparr>docker_build := Inr (1, twelve_lines)\<rparr>) = Inr (1, twelve_lines)"
    by simp
  have tail: "map ((@) ''  '') (final_lines 10 twelve_lines) =
      [''  l3'', ''  l4'', ''  l5'', ''  l6'', ''  l7'', ''  l8'', ''  l9'', ''  l10'',
        ''  l11'', ''  l12'']"
    by (simp add: final_lines_def twelve_lines_def)
  have long: "10 < length twelve_lines"
    by (simp add: twelve_lines_def)
  from log_excerpt_is_final_ten[OF reached built] long tail reached built
  show ?thesis by simp
qed



text \<open>
  Claim C7: for a language other than \<^verbatim>\<open>"Python"\<close>, every clone of the repository comes
  after the check of the base image and, when that check reported the image absent,
  after the base build, which itself comes after the check. For \<^verbatim>\<open>"Python"\<close> the base
  image is neither checked nor built.
\<close>

theorem base_image_before_clone:
  "(language a \<noteq> ''Python'' \<longrightarrow>
      (\<forall>c\<in>set (called (snd (main a w))). is_clone c \<longrightarrow>
         precedes (CheckImageLocal base_docker_manager (base_image_id (language a))) c
           (called (snd (main a w))) \<and>
         (base_check_image_local w = Inr False \<longrightarrow>
            precedes (BuildBaseImage (base_image_id (language a)) (language a)) c
              (called (snd (main a w))) \<and>
            precedes (CheckImageLocal base_docker_manager (base_image_id (language a)))
              (BuildBaseImage (base_image_id (language a)) (language a))
              (called (snd (main a w)))))) \<and>
    (language a = ''Python'' \<longrightarrow>
      (\<forall>c\<in>set (called (snd (main a w))).
         \<not> is_build_base c \<and> (\<forall>n. c \<noteq> CheckImageLocal base_docker_manager n)))"
  by (auto simp: run_simps outcome_of_def called_def precedes_def
           split: sum.splits if_splits prod.splits)

theorem base_image_before_clone_witness:
  "language java_x1 \<noteq> ''Python'' \<and> base_check_image_local all_ok = Inr False \<and>
   CloneRepo ''org/lib'' ''/tmp/r'' \<in> set (called (snd (main java_x1 all_ok))) \<and>
   is_clone (CloneRepo ''org/lib'' ''/tmp/r'') \<and>
   precedes (CheckImageLocal base_docker_manager ''polybench_java_base'')
     (CloneRepo ''org/lib'' ''/tmp/r'') (called (snd (main java_x1 all_ok))) \<and>
   precedes (BuildBaseImage ''polybench_java_base'' ''Java'')
     (CloneRepo ''org/lib'' ''/tmp/r'') (called (snd (main java_x1 all_ok))) \<and>
   language python_x1 = ''Python'' \<and>
   called (snd (main python_x1 all_ok)) =
     [FromEnv 720, CheckImageLocal docker_manager ''polybench_python_x1'',
      CloneRepo ''org/lib'' ''/tmp/r'', CheckoutCommit ''abc123'',
      DockerBuild ''polybench_python_x1'' ''/tmp/r/lib'' ''FROM python:3.11'', Del]"
proof -
  have lang: "language java_x1 \<noteq> ''Python''" "language python_x1 = ''Python''"
    by (simp_all add: java_x1_def python_x1_def)
  have absent: "base_check_image_local all_ok = Inr False"
    by (simp add: all_ok_def)
  have cloned: "CloneRepo ''org/lib'' ''/tmp/r'' \<in> set (called (snd (main java_x1 all_ok)))"
    by (simp add: sample_simps)
  have py: "called (snd (main python_x1 all_ok)) =
     [FromEnv 720, CheckImageLocal docker_manager ''polybench_python_x1'',
      CloneRepo ''org/lib'' ''/tmp/r'', CheckoutCommit ''abc123'',
      DockerBuild ''polybench_python_x1'' ''/tmp/r/lib'' ''FROM python:3.11'', Del]"
    by (simp add: sample_simps)
  have names: "base_image_id (language java_x1) = ''polybench_java_base''"
    "language java_x1 = ''Java''"
    by (simp_all add: java_x1_def names_java_x1)
  from base_image_before_clone[of java_x1 all_ok] lang absent cloned
  have "precedes (CheckImageLocal base_docker_manager (base_image_id (language java_x1)))
          (CloneRepo ''org/lib'' ''/tmp/r'') (called (snd (main java_x1 all_ok))) \<and>
        precedes (BuildBaseImage (base_image_id (language java_x1)) (language java_x1))
          (CloneRepo ''org/lib'' ''/tmp/r'') (called (snd (main java_x1 all_ok)))"
    by auto
  with lang absent cloned py names show ?thesis by simp
qed

text \<open>
  Claim C8: when a call to a collaborator raises an exception, \<^verbatim>\<open>main\<close> returns 1, the
  last line printed is the error line with the message of that exception, and the
  call that raised is the last call of the run.
\<close>

theorem collaborator_exception_gives_status_1:
  assumes "(c, Raised (Exception m)) \<in> set (calls (snd (main a w)))"
  shows "fst (main a w) = 1 \<and>
     last (stdout (snd (main a w))) = ''Error building image for '' @ instance_id a @ '': '' @ m \<and>
     last (calls (snd (main a w))) = (c, Raised (Exception m))"
  using tidy_raised[OF tidy_try_body, of c "Exception m" a w] assms
  by (simp add: fst_main calls_main stdout_main)

theorem collaborator_exception_gives_status_1_witness:
  "(CheckoutCommit ''abc123def4567'', Raised (Exception ''bad object''))
     \<in> set (calls (snd (main java_x1 (all_ok\<lparr>checkout_commit := Inl (Exception ''bad object'')\<rparr>)))) \<and>
   fst (main java_x1 (all_ok\<lparr>checkout_commit := Inl (Exception ''bad object'')\<rparr>)) = 1 \<and>
   last (stdout (snd (main java_x1 (all_ok\<lparr>checkout_commit := Inl (Exception ''bad object'')\<rparr>))))
     = ''Error building image for X1: bad object''"
proof -
  have raised: "(CheckoutCommit ''abc123def4567'', Raised (Exception ''bad object''))
     \<in> set (calls (snd (main java_x1 (all_ok\<lparr>checkout_commit := Inl (Exception ''bad object'')\<rparr>))))"
    by (simp add: sample_simps)
  from collaborator_exception_gives_status_1[OF raised] raised
  show ?thesis by (simp add: java_x1_def)
qed

text \<open>
  Claim C9: when a check of the local registry raises, the run returns 1 and the check
  is its last call: nothing is cloned and no instance image is built, and when the
  check was the one of the base image, no base image is built.
\<close>

theorem registry_error_never_read_as_absent:
  assumes "(CheckImageLocal v n, Raised e) \<in> set (calls (snd (main a w)))"
  shows "fst (main a w) = 1 \<and>
     last (calls (snd (main a w))) = (CheckImageLocal v n, Raised e) \<and>
     (\<forall>c\<in>set (called (snd (main a w))). \<not> is_clone c \<and> \<not> is_docker_build c) \<and>
     (v = base_docker_manager \<longrightarrow> (\<forall>c\<in>set (called (snd (main a w))). \<not> is_build_base c))"
proof -
  from tidy_raised[OF tidy_try_body, of "CheckImageLocal v n" e a w] assms
  have "fst (main a w) = 1 \<and> last (calls (snd (main a w))) = (CheckImageLocal v n, Raised e)"
    by (simp add: fst_main calls_main)
  moreover from assms
  have "(\<forall>c\<in>set (called (snd (main a w))). \<not> is_clone c \<and> \<not> is_docker_build c) \<and>
     (v = base_docker_manager \<longrightarrow> (\<forall>c\<in>set (called (snd (main a w))). \<not> is_build_base c))"
    by (auto simp: run_simps outcome_of_def called_def split: sum.splits if_splits prod.splits)
  ultimately show ?thesis by blast
qed

theorem registry_error_never_read_as_absent_witness:
  "(CheckImageLocal base_docker_manager ''polybench_java_base'', Raised (Exception ''daemon down''))
     \<in> set (calls (snd (main java_x1
            (all_ok\<lparr>base_check_image_local := Inl (Exception ''daemon down'')\<rparr>)))) \<and>
   fst (main java_x1 (all_ok\<lparr>base_check_image_local := Inl (Exception ''daemon down'')\<rparr>)) = 1 \<and>
   called (snd (main java_x1 (all_ok\<lparr>base_check_image_local := Inl (Exception ''daemon down'')\<rparr>)))
     = [FromEnv 720, CheckImageLocal base_docker_manager ''polybench_java_base'']"
proof -
  have raised: "(CheckImageLocal base_docker_manager ''polybench_java_base'',
        Raised (Exception ''daemon down''))
     \<in> set (calls (snd (main java_x1
            (all_ok\<lparr>base_check_image_local := Inl (Exception ''daemon down'')\<rparr>))))"
    by (simp add: sample_simps)
  have trace: "called (snd (main java_x1
       (all_ok\<lparr>base_check_image_local := Inl (Exception ''daemon down'')\<rparr>)))
     = [FromEnv 720, CheckImageLocal base_docker_manager ''polybench_java_base'']"
    by (simp add: sample_simps)
  from registry_error_never_read_as_absent[OF raised] raised trace
  show ?thesis by simp
qed

text \<open>
  Claim C10: the test for the language that needs no base image compares with
  \<^verbatim>\<open>"Python"\<close> exactly. With the language \<^verbatim>\<open>"python"\<close> the base image is checked, with
  \<^verbatim>\<open>"Python"\<close> it is not, although both spellings give the same image names.
\<close>

theorem lower_case_python_takes_base_branch:
  assumes "from_env w = Inr ()"
  shows "CheckImageLocal base_docker_manager ''polybench_python_base''
       \<in> set (called (snd (main (a\<lparr>language := ''python''\<rparr>) w))) \<and>
     CheckImageLocal base_docker_manager ''polybench_python_base''
       \<notin> set (called (snd (main (a\<lparr>language := ''Python''\<rparr>) w))) \<and>
     base_image_id ''python'' = base_image_id ''Python'' \<and>
     image_id ''python'' i = image_id ''Python'' i"
proof -
  have names: "base_image_id ''python'' = ''polybench_python_base''"
      "base_image_id ''Python'' = ''polybench_python_base''"
      "image_id ''python'' i = image_id ''Python'' i"
    by (simp_all add: base_image_id_def image_id_def lower_defs)
  from assms have "CheckImageLocal base_docker_manager ''polybench_python_base''
       \<in> set (called (snd (main (a\<lparr>language := ''python''\<rparr>) w)))"
    by (simp add: calls_main calls_try_body calls_base called_def names)
  moreover have "CheckImageLocal base_docker_manager ''polybench_python_base''
       \<notin> set (called (snd (main (a\<lparr>language := ''Python''\<rparr>) w)))"
    by (auto simp: calls_main calls_try_body calls_base calls_inst called_def
             split: sum.splits if_splits)
  ultimately show ?thesis using names by simp
qed

theorem lower_case_python_takes_base_branch_witness:
  "from_env all_ok = Inr () \<and>
   called (snd (main (python_x1\<lparr>language := ''python''\<rparr>) all_ok)) =
     [FromEnv 720, CheckImageLocal base_docker_manager ''polybench_python_base'',
      BuildBaseImage ''polybench_python_base'' ''python'',
      CheckImageLocal docker_manager ''polybench_python_x1'',
      CloneRepo ''org/lib'' ''/tmp/r'', CheckoutCommit ''abc123'',
      DockerBuild ''polybench_python_x1'' ''/tmp/r/lib'' ''FROM python:3.11'', Del] \<and>
   CheckImageLocal base_docker_manager ''polybench_python_base''
       \<in> set (called (snd (main (python_x1\<lparr>language := ''python''\<rparr>) all_ok))) \<and>
   CheckImageLocal base_docker_manager ''polybench_python_base''
       \<notin> set (called (snd (main (python_x1\<lparr>language := ''Python''\<rparr>) all_ok)))"
proof -
  have ok: "from_env all_ok = Inr ()"
    by (simp add: all_ok_def)
  have lower_x1: "image_id ''python'' ''X1'' = ''polybench_python_x1''"
    by (simp add: image_id_def lower_defs)
  have trace: "called (snd (main (python_x1\<lparr>language := ''python''\<rparr>) all_ok)) =
     [FromEnv 720, CheckImageLocal base_docker_manager ''polybench_python_base'',
      BuildBaseImage ''polybench_python_base'' ''python'',
      CheckImageLocal docker_manager ''polybench_python_x1'',
      CloneRepo ''org/lib'' ''/tmp/r'', CheckoutCommit ''abc123'',
      DockerBuild ''polybench_python_x1'' ''/tmp/r/lib'' ''FROM python:3.11'', Del]"
    by (simp add: sample_simps lower_x1)
  from lower_case_python_takes_base_branch[OF ok, of python_x1] ok trace
  show ?thesis by simp
qed

end
